theory Spec2Isabelle
  imports Main "HOL-Library.Word"
begin

unbundle bit_operations_syntax

section \<open>Capability model (server/user\_state.go)\<close>

text \<open>
  \<^verbatim>\<open>type CapabilityType int64\<close>: a 64-bit mask.  Only bitwise operations and
  comparison with zero are applied to it, so the sign of the top bit plays no role.
\<close>

type_synonym CapabilityType = "64 word"

text \<open>\<^verbatim>\<open>CapabilityAnonymous CapabilityType = 0\<close>, a const block of its own.\<close>

definition CapabilityAnonymous :: CapabilityType where
  "CapabilityAnonymous = 0"

text \<open>
  The second const block: \<^verbatim>\<open>1 << iota\<close>, with \<^verbatim>\<open>iota\<close> counting the constants of
  the block from 0 (comments and blank lines do not advance it).
\<close>

definition CapabilityViewPublicResourceEntry :: CapabilityType where
  "CapabilityViewPublicResourceEntry = push_bit (0::nat) 1"

definition CapabilityViewOwnVolunteerComment :: CapabilityType where
  "CapabilityViewOwnVolunteerComment = push_bit (1::nat) 1"

definition CapabilityViewOtherVolunteerComment :: CapabilityType where
  "CapabilityViewOtherVolunteerComment = push_bit (2::nat) 1"

definition CapabilityEditOwnVolunteerComment :: CapabilityType where
  "CapabilityEditOwnVolunteerComment = push_bit (3::nat) 1"

definition CapabilityEditOtherVolunteerComment :: CapabilityType where
  "CapabilityEditOtherVolunteerComment = push_bit (4::nat) 1"

definition CapabilityEditResource :: CapabilityType where
  "CapabilityEditResource = push_bit (5::nat) 1"

definition CapabilityViewUsers :: CapabilityType where
  "CapabilityViewUsers = push_bit (6::nat) 1"

definition CapabilityInviteNewVolunteer :: CapabilityType where
  "CapabilityInviteNewVolunteer = push_bit (7::nat) 1"

definition CapabilityInviteNewAdmin :: CapabilityType where
  "CapabilityInviteNewAdmin = push_bit (8::nat) 1"

definition CapabilityEditUsers :: CapabilityType where
  "CapabilityEditUsers = push_bit (9::nat) 1"

definition CapabilityReauthenticate :: CapabilityType where
  "CapabilityReauthenticate = push_bit (10::nat) 1"

text \<open>The eleven single-bit capabilities of the second const block, in source order.\<close>

definition capabilityBits :: "CapabilityType list" where
  "capabilityBits =
     [CapabilityViewPublicResourceEntry, CapabilityViewOwnVolunteerComment,
      CapabilityViewOtherVolunteerComment, CapabilityEditOwnVolunteerComment,
      CapabilityEditOtherVolunteerComment, CapabilityEditResource,
      CapabilityViewUsers, CapabilityInviteNewVolunteer, CapabilityInviteNewAdmin,
      CapabilityEditUsers, CapabilityReauthenticate]"

text \<open>The third const block: the two role presets.\<close>

definition CapabilityAdministrator :: CapabilityType where
  "CapabilityAdministrator =
     CapabilityViewUsers OR CapabilityInviteNewVolunteer OR CapabilityInviteNewAdmin
       OR CapabilityEditUsers OR CapabilityViewPublicResourceEntry"

definition CapabilityVolunteer :: CapabilityType where
  "CapabilityVolunteer =
     CapabilityViewPublicResourceEntry OR CapabilityViewOwnVolunteerComment
       OR CapabilityViewOtherVolunteerComment OR CapabilityEditOwnVolunteerComment
       OR CapabilityEditResource OR CapabilityInviteNewVolunteer"

section \<open>The identity record\<close>

type_synonym bytes = "8 word list"

text \<open>
  \<^verbatim>\<open>uuid.UUID\<close> is a byte slice; its zero value is the nil slice, modelled as \<open>[]\<close>.
  \<^verbatim>\<open>time.Time\<close> is kept as its two integer fields (the location pointer is left out);
  the zero time has both fields 0.
\<close>

datatype Time = Time (wall: "64 word") (ext: "64 word")

record UserCookie =
  Uuid :: bytes
  Capability :: CapabilityType
  Timestamp :: Time
  Displayname :: string

text \<open>\<^verbatim>\<open>new(UserCookie)\<close>: every field has its zero value.\<close>

definition new_UserCookie :: UserCookie where
  "new_UserCookie = \<lparr>Uuid = [], Capability = 0, Timestamp = Time 0 0, Displayname = []\<rparr>"

definition IsAuthed :: "UserCookie \<Rightarrow> bool" where
  "IsAuthed u = (Capability u \<noteq> CapabilityAnonymous)"

definition DisplayName :: "UserCookie \<Rightarrow> string" where
  "DisplayName u = Displayname u"

definition HasCapability :: "UserCookie \<Rightarrow> CapabilityType \<Rightarrow> bool" where
  "HasCapability u cap = (Capability u AND cap \<noteq> 0)"

definition HasCapabilityEditResource :: "UserCookie \<Rightarrow> bool" where
  "HasCapabilityEditResource u = HasCapability u CapabilityEditResource"

definition HasCapabilityViewUsers :: "UserCookie \<Rightarrow> bool" where
  "HasCapabilityViewUsers u = HasCapability u CapabilityViewUsers"

definition HasCapabilityIniviteUsers :: "UserCookie \<Rightarrow> bool" where
  "HasCapabilityIniviteUsers u =
     HasCapability u (CapabilityInviteNewVolunteer OR CapabilityInviteNewAdmin)"

section \<open>Requests, responses and the request context\<close>

text \<open>
  A Go \<^verbatim>\<open>error\<close> is kept as the message its \<^verbatim>\<open>Error()\<close> method returns, which is all
  the code under study does with one (it formats it with \<^verbatim>\<open>%v\<close> or \<^verbatim>\<open>Println\<close>).
\<close>

type_synonym error = string

record Cookie =
  Name :: string
  Value :: string

text \<open>
  A value stored in a \<^verbatim>\<open>context.Context\<close>: either the \<^verbatim>\<open>*UserCookie\<close> the middleware
  stores, or something of another dynamic type.
\<close>

datatype ctx_value = PtrUserCookie UserCookie | OtherValue string

text \<open>
  A context is the chain of key/value pairs built by \<^verbatim>\<open>context.WithValue\<close>, innermost
  first; \<^verbatim>\<open>Value\<close> returns the innermost binding of the key, or nil (\<open>None\<close>).
\<close>

type_synonym Context = "(string \<times> ctx_value) list"

definition WithValue :: "Context \<Rightarrow> string \<Rightarrow> ctx_value \<Rightarrow> Context" where
  "WithValue parent k v = (k, v) # parent"

definition ctx_Value :: "Context \<Rightarrow> string \<Rightarrow> ctx_value option" where
  "ctx_Value c k = map_of c k"

text \<open>
  Of an \<^verbatim>\<open>http.Request\<close> the middleware reads the cookies sent with it (in header order)
  and its context.
\<close>

record Request =
  cookies :: "Cookie list"
  ctx :: Context

definition ErrNoCookie :: error where
  "ErrNoCookie = ''http: named cookie not present''"

text \<open>\<^verbatim>\<open>req.Cookie(name)\<close>: the first cookie of that name, or \<^verbatim>\<open>ErrNoCookie\<close>.\<close>

definition Cookie_of :: "Request \<Rightarrow> string \<Rightarrow> error + Cookie" where
  "Cookie_of req name =
     (case find (\<lambda>c. Name c = name) (cookies req) of
        None \<Rightarrow> Inl ErrNoCookie
      | Some c \<Rightarrow> Inr c)"

text \<open>\<^verbatim>\<open>req.WithContext(ctx)\<close>: a copy of the request carrying the new context.\<close>

definition WithContext :: "Request \<Rightarrow> Context \<Rightarrow> Request" where
  "WithContext req c = req\<lparr>ctx := c\<rparr>"

text \<open>
  What has been written to an \<^verbatim>\<open>http.ResponseWriter\<close>: the status line, if any, and the
  body bytes so far.
\<close>

record ResponseWriter =
  status :: "nat option"
  body :: string

text \<open>\<^verbatim>\<open>fmt.Sprintln\<close>: the operands separated by single spaces, then a newline.\<close>

fun Sprintln :: "string list \<Rightarrow> string" where
  "Sprintln [] = [CHR 0x0A]"
| "Sprintln [a] = a @ [CHR 0x0A]"
| "Sprintln (a # b # bs) = a @ '' '' @ Sprintln (b # bs)"

text \<open>
  Modelled from the spec: \<^verbatim>\<open>respondWithError\<close> is called by \<^verbatim>\<open>ServeHTTP\<close> but defined in
  another file of package \<^verbatim>\<open>server\<close>.  The spec has a decode failure "surface as an HTTP
  error response to the originating client, e.g. a 4xx status with a diagnostic body":
  status 400 and the message as body.
\<close>

definition respondWithError :: "ResponseWriter \<Rightarrow> string \<Rightarrow> ResponseWriter" where
  "respondWithError w emsg = w\<lparr>status := Some 400, body := body w @ emsg\<rparr>"

definition isErrorResponse :: "ResponseWriter \<Rightarrow> bool" where
  "isErrorResponse w = (case status w of None \<Rightarrow> False | Some c \<Rightarrow> 400 \<le> c \<and> c < 600)"

section \<open>The cookie handler\<close>

text \<open>
  \<^verbatim>\<open>securecookie.SecureCookie\<close> is an external library type.  The handler uses its
  \<^verbatim>\<open>Decode(name, value, dst)\<close> only, which returns an error or nil and may write to the
  record \<^verbatim>\<open>dst\<close> points to: the model returns the error and the record afterwards.
\<close>

record SecureCookie =
  Decode :: "string \<Rightarrow> string \<Rightarrow> UserCookie \<Rightarrow> error option \<times> UserCookie"

type_synonym Handler = "ResponseWriter \<Rightarrow> Request \<Rightarrow> ResponseWriter"

record cookieHandler =
  cookiecodec :: SecureCookie
  revokelist :: "bytes list"
  delegate :: Handler

text \<open>
  \<^verbatim>\<open>makeCookieHandler\<close>, with the codec of the handler factory passed in;
  \<^verbatim>\<open>make([]uuid.UUID, 0, 10)\<close> is an empty list.
\<close>

definition makeCookieHandler :: "SecureCookie \<Rightarrow> Handler \<Rightarrow> cookieHandler" where
  "makeCookieHandler codec d = \<lparr>cookiecodec = codec, revokelist = [], delegate = d\<rparr>"

definition SessionCookieName :: string where
  "SessionCookieName = ''session''"

definition UserCookieStateName :: string where
  "UserCookieStateName = ''usercookiestate''"

text \<open>
  \<^verbatim>\<open>GetCookie\<close>: the type assertion \<^verbatim>\<open>.(*UserCookie)\<close> has no comma-ok form, so it panics
  when the context has no value under the key (a nil interface) and when the value has
  another dynamic type.
\<close>

datatype panic = InterfaceIsNil | InterfaceIsNotUserCookie

definition GetCookie :: "Request \<Rightarrow> panic + UserCookie" where
  "GetCookie req =
     (case ctx_Value (ctx req) UserCookieStateName of
        None \<Rightarrow> Inl InterfaceIsNil
      | Some (PtrUserCookie u) \<Rightarrow> Inr u
      | Some (OtherValue _) \<Rightarrow> Inl InterfaceIsNotUserCookie)"

text \<open>
  The effects of \<^verbatim>\<open>ServeHTTP\<close> outside the response writer: the lines handed to the
  standard logger (without its timestamp prefix), and a record of every call of
  \<^verbatim>\<open>cf.delegate.ServeHTTP\<close> with the arguments it was given.
\<close>

record World =
  logged :: "string list"
  served :: "(ResponseWriter \<times> Request) list"

definition log_Println :: "string list \<Rightarrow> World \<Rightarrow> World" where
  "log_Println args s = s\<lparr>logged := logged s @ [Sprintln args]\<rparr>"

definition delegate_ServeHTTP ::
  "cookieHandler \<Rightarrow> ResponseWriter \<Rightarrow> Request \<Rightarrow> World \<Rightarrow> ResponseWriter \<times> World" where
  "delegate_ServeHTTP cf w req s = (delegate cf w req, s\<lparr>served := served s @ [(w, req)]\<rparr>)"

text \<open>
  \<^verbatim>\<open>cookieHandler.ServeHTTP\<close>.  The branch for an undecodable cookie logs, responds with
  an error and has no \<^verbatim>\<open>return\<close>: control reaches the call of the delegate in all three
  cases.
\<close>

definition ServeHTTP ::
  "cookieHandler \<Rightarrow> ResponseWriter \<Rightarrow> Request \<Rightarrow> World \<Rightarrow> ResponseWriter \<times> World" where
  "ServeHTTP cf w req s =
     (let usercookie = new_UserCookie in
      case Cookie_of req SessionCookieName of
        Inr cookie \<Rightarrow>
          (case Decode (cookiecodec cf) SessionCookieName (Value cookie) usercookie of
             (Some err, usercookie') \<Rightarrow>
               (let s1 = log_Println [''request had a cookie but it was not decodeable:'', err] s;
                    w1 = respondWithError w (Sprintln [''Malformed session cookie'', err])
                in delegate_ServeHTTP cf w1
                     (WithContext req
                        (WithValue (ctx req) UserCookieStateName (PtrUserCookie usercookie'))) s1)
           | (None, usercookie') \<Rightarrow>
               delegate_ServeHTTP cf w
                 (WithContext req
                    (WithValue (ctx req) UserCookieStateName (PtrUserCookie usercookie'))) s)
      | Inl _ \<Rightarrow>
          (let s1 = log_Println [''anonymous access''] s;
               usercookie' = usercookie\<lparr>Capability := CapabilityAnonymous\<rparr>
           in delegate_ServeHTTP cf w
                (WithContext req
                   (WithValue (ctx req) UserCookieStateName (PtrUserCookie usercookie'))) s1))"

text \<open>
  The identity record a request carries when it reaches the delegate, as the delegate reads
  it with \<^verbatim>\<open>GetCookie\<close>, for each recorded call.
\<close>

definition attached :: "World \<Rightarrow> (panic + UserCookie) list" where
  "attached s = map (\<lambda>(w, r). GetCookie r) (served s)"

text \<open>The invariant the data model states for an identity record.\<close>

definition identity_invariant :: "UserCookie \<Rightarrow> bool" where
  "identity_invariant u = ((Uuid u = []) = (Capability u = CapabilityAnonymous))"

section \<open>Example collaborators\<close>

text \<open>
  A codec given by a table from (name, value) to the record that value decodes to; any
  other value is rejected and the destination record is left as it was.
\<close>

definition table_codec :: "((string \<times> string) \<times> UserCookie) list \<Rightarrow> SecureCookie" where
  "table_codec tbl =
     \<lparr>Decode = (\<lambda>name v dst.
        case map_of tbl (name, v) of
          Some u \<Rightarrow> (None, u)
        | None \<Rightarrow> (Some ''securecookie: the value is not valid'', dst))\<rparr>"

definition page_delegate :: Handler where
  "page_delegate w req =
     w\<lparr>status := (case status w of None \<Rightarrow> Some 200 | Some c \<Rightarrow> Some c),
       body := body w @ ''page''\<rparr>"

definition fresh_writer :: ResponseWriter where
  "fresh_writer = \<lparr>status = None, body = []\<rparr>"

definition quiet_world :: World where
  "quiet_world = \<lparr>logged = [], served = []\<rparr>"

definition request_with :: "Cookie list \<Rightarrow> Request" where
  "request_with cs = \<lparr>cookies = cs, ctx = []\<rparr>"

text \<open>Two identity records and a handler whose codec knows a token for each.\<close>

definition alice :: UserCookie where
  "alice = \<lparr>Uuid = [1, 2, 3, 4, 5, 6, 7, 8, 9, 10, 11, 12, 13, 14, 15, 16],
             Capability = CapabilityVolunteer, Timestamp = Time 1 0, Displayname = ''alice''\<rparr>"

definition nocaps :: UserCookie where
  "nocaps = \<lparr>Uuid = [1, 2, 3, 4, 5, 6, 7, 8, 9, 10, 11, 12, 13, 14, 15, 16],
             Capability = 0, Timestamp = Time 1 0, Displayname = ''bob''\<rparr>"

definition example_codec :: SecureCookie where
  "example_codec = table_codec [((''session'', ''good''), alice), ((''session'', ''nocaps''), nocaps)]"

definition example_handler :: cookieHandler where
  "example_handler = makeCookieHandler example_codec page_delegate"

text \<open>
  A codec that rejects every value, after it has written to the destination record: the
  table gives, for a (name, value), the record it leaves behind; for any other value the
  destination record is left as it was.
\<close>

definition failing_codec :: "((string \<times> string) \<times> UserCookie) list \<Rightarrow> SecureCookie" where
  "failing_codec tbl =
     \<lparr>Decode = (\<lambda>name v dst.
        (Some ''securecookie: error - caused by: unexpected EOF'',
         case map_of tbl (name, v) of Some u \<Rightarrow> u | None \<Rightarrow> dst))\<rparr>"

text \<open>
  Two records of a decode cut short: the user id written and nothing else, and the user id
  and the capability mask written.
\<close>

definition uuid_only :: UserCookie where
  "uuid_only = \<lparr>Uuid = [1, 2, 3, 4, 5, 6, 7, 8, 9, 10, 11, 12, 13, 14, 15, 16],
                Capability = 0, Timestamp = Time 0 0, Displayname = []\<rparr>"

definition half_admin :: UserCookie where
  "half_admin = \<lparr>Uuid = [1, 2, 3, 4, 5, 6, 7, 8, 9, 10, 11, 12, 13, 14, 15, 16],
                 Capability = CapabilityAdministrator, Timestamp = Time 0 0, Displayname = []\<rparr>"

definition truncating_handler :: cookieHandler where
  "truncating_handler =
     makeCookieHandler
       (failing_codec [((''session'', ''cut-after-uuid''), uuid_only),
                       ((''session'', ''cut-after-capability''), half_admin)])
       page_delegate"

section \<open>Cookie key provisioning\<close>

text \<open>
  \<^verbatim>\<open>makeCookieCryptoKey\<close> calls into the Go standard library and into securecookie.  These
  calls are parameters of the model, over a state \<open>'w\<close> of the world outside the
  process (the file system, the random source):
  \<^item> \<^verbatim>\<open>filepath.Join(a, b)\<close>;
  \<^item> \<^verbatim>\<open>ioutil.ReadFile(path)\<close>: the contents or an error;
  \<^item> \<^verbatim>\<open>securecookie.GenerateRandomKey(n)\<close>: a key, or nil (\<open>None\<close>);
  \<^item> \<^verbatim>\<open>os.Create(path)\<close>: an open file, named here by its path, or an error;
  \<^item> \<^verbatim>\<open>file.Write(b)\<close>: the number of bytes written and an error or nil;
  \<^item> \<^verbatim>\<open>securecookie.New(hashkey, blockkey)\<close>.
\<close>

record 'w Env =
  filepath_Join :: "string \<Rightarrow> string \<Rightarrow> string"
  ioutil_ReadFile :: "string \<Rightarrow> 'w \<Rightarrow> error + bytes"
  GenerateRandomKey :: "nat \<Rightarrow> 'w \<Rightarrow> bytes option \<times> 'w"
  os_Create :: "string \<Rightarrow> 'w \<Rightarrow> (error + string) \<times> 'w"
  File_Write :: "string \<Rightarrow> bytes \<Rightarrow> 'w \<Rightarrow> (nat \<times> error option) \<times> 'w"
  securecookie_New :: "bytes \<Rightarrow> bytes \<Rightarrow> SecureCookie"

text \<open>The verbs \<^verbatim>\<open>%d\<close> of a length and \<^verbatim>\<open>%v\<close> of an error that may be nil.\<close>

fun fmt_d :: "nat \<Rightarrow> string" where
  "fmt_d n = (if n < 10 then [char_of (48 + n)]
              else fmt_d (n div 10) @ [char_of (48 + n mod 10)])"

declare fmt_d.simps [simp del]

definition fmt_v :: "error option \<Rightarrow> string" where
  "fmt_v e = (case e of None \<Rightarrow> ''<nil>'' | Some m \<Rightarrow> m)"

definition makeCookieCryptoKey ::
  "'w Env \<Rightarrow> string \<Rightarrow> string \<Rightarrow> 'w \<Rightarrow> (error + bytes) \<times> 'w" where
  "makeCookieCryptoKey env statepath cookiename w =
     (let path = filepath_Join env statepath cookiename in
      case ioutil_ReadFile env path w of
        Inr key \<Rightarrow> (Inr key, w)
      | Inl _ \<Rightarrow>
          (case GenerateRandomKey env 32 w of
             (None, w1) \<Rightarrow>
               (Inl (''No cookie for '' @ cookiename @ '' and can't make one''), w1)
           | (Some key, w1) \<Rightarrow>
               (case os_Create env path w1 of
                  (Inl err, w2) \<Rightarrow>
                    (Inl (''Can't create a '' @ path @ '' to hold new cookie: '' @ err), w2)
                | (Inr cookiefile, w2) \<Rightarrow>
                    (case File_Write env cookiefile key w2 of
                       ((n, err), w3) \<Rightarrow>
                         if err \<noteq> None \<or> n \<noteq> length key
                         then (Inl (''Can't write new cookie '' @ path @ ''.  len is ''
                                    @ fmt_d n @ '' instead of '' @ fmt_d (length key)
                                    @ '' or error: '' @ fmt_v err), w3)
                         else (Inr key, w3)))))"

definition makeCookieTooling :: "'w Env \<Rightarrow> string \<Rightarrow> 'w \<Rightarrow> (error + SecureCookie) \<times> 'w" where
  "makeCookieTooling env statepath w =
     (case makeCookieCryptoKey env statepath ''hashkey.dat'' w of
        (Inl err, w1) \<Rightarrow> (Inl err, w1)
      | (Inr hashkey, w1) \<Rightarrow>
          (case makeCookieCryptoKey env statepath ''blockkey.dat'' w1 of
             (Inl err, w2) \<Rightarrow> (Inl err, w2)
           | (Inr blockkey, w2) \<Rightarrow> (Inr (securecookie_New env hashkey blockkey), w2)))"

text \<open>
  An example world: a disk holding files by path, some of which fail every read with an
  I/O error, and which may be mounted read-only; key generation always succeeds.
\<close>

record Disk =
  files :: "(string \<times> bytes) list"
  damaged :: "string list"
  readonly :: bool

definition disk_env :: "Disk Env" where
  "disk_env =
     \<lparr>filepath_Join = (\<lambda>a b. a @ ''/'' @ b),
      ioutil_ReadFile = (\<lambda>p d.
        case map_of (files d) p of
          None \<Rightarrow> Inl (''open '' @ p @ '': no such file or directory'')
        | Some k \<Rightarrow>
            if p \<in> set (damaged d) then Inl (''read '' @ p @ '': input/output error'')
            else Inr k),
      GenerateRandomKey = (\<lambda>n d. (Some (replicate n 42), d)),
      os_Create = (\<lambda>p d.
        if readonly d then (Inl (''open '' @ p @ '': read-only file system''), d)
        else (Inr p, d\<lparr>files := (p, []) # files d\<rparr>)),
      File_Write = (\<lambda>f b d.
        ((length b, None),
         d\<lparr>files := (f, (case map_of (files d) f of None \<Rightarrow> [] | Some old \<Rightarrow> old) @ b)
                      # files d\<rparr>)),
      securecookie_New = (\<lambda>hashkey blockkey. table_codec [])\<rparr>"

definition old_key :: bytes where
  "old_key = replicate 32 7"

definition damaged_disk :: Disk where
  "damaged_disk = \<lparr>files = [(''state/hashkey.dat'', old_key)],
                   damaged = [''state/hashkey.dat''], readonly = False\<rparr>"

definition healthy_disk :: Disk where
  "healthy_disk = \<lparr>files = [(''state/hashkey.dat'', old_key)], damaged = [], readonly = False\<rparr>"

definition empty_disk :: Disk where
  "empty_disk = \<lparr>files = [], damaged = [], readonly = False\<rparr>"

definition readonly_disk :: Disk where
  "readonly_disk = \<lparr>files = [], damaged = [], readonly = True\<rparr>"

section \<open>Properties of the capability model\<close>

lemmas capability_defs =
  CapabilityViewPublicResourceEntry_def CapabilityViewOwnVolunteerComment_def
  CapabilityViewOtherVolunteerComment_def CapabilityEditOwnVolunteerComment_def
  CapabilityEditOtherVolunteerComment_def CapabilityEditResource_def
  CapabilityViewUsers_def CapabilityInviteNewVolunteer_def CapabilityInviteNewAdmin_def
  CapabilityEditUsers_def CapabilityReauthenticate_def

lemma capabilityBits_values:
  "capabilityBits = [1, 2, 4, 8, 16, 32, 64, 128, 256, 512, 1024]"
  by (simp add: capabilityBits_def capability_defs)

lemma CapabilityAdministrator_value: "CapabilityAdministrator = 961"
  by (simp add: CapabilityAdministrator_def capability_defs)

lemma CapabilityVolunteer_value: "CapabilityVolunteer = 175"
  by (simp add: CapabilityVolunteer_def capability_defs)

lemma and_nonzero_iff_shared_bit:
  "((m::CapabilityType) AND b \<noteq> 0) = (\<exists>n. bit m n \<and> bit b n)"
proof
  assume "m AND b \<noteq> 0"
  then obtain n where "bit (m AND b) n"
    by (auto simp: bit_eq_iff)
  then show "\<exists>n. bit m n \<and> bit b n"
    by (auto simp: bit_and_iff)
next
  assume "\<exists>n. bit m n \<and> bit b n"
  then obtain n where "bit (m AND b) n"
    by (auto simp: bit_and_iff)
  then show "m AND b \<noteq> 0"
    by auto
qed

text \<open>
  C3. \<^verbatim>\<open>HasCapability\<close> answers true exactly when the bitwise AND of the record's mask
  and the queried capability is non-zero, that is, exactly when the two share a set bit.
  It is a function of the mask and the queried bits alone: the other fields of the record
  do not influence it and nothing is modified.
\<close>

theorem HasCapability_iff_and_nonzero:
  "HasCapability u b = (Capability u AND b \<noteq> 0)
   \<and> HasCapability u b = (\<exists>n. bit (Capability u) n \<and> bit b n)
   \<and> HasCapability (u\<lparr>Uuid := i, Timestamp := t, Displayname := d\<rparr>) b = HasCapability u b"
  by (simp add: HasCapability_def and_nonzero_iff_shared_bit)

text \<open>
  C4. A record whose mask is \<^verbatim>\<open>CapabilityAnonymous\<close> has none of the eleven defined
  capability bits.
\<close>

theorem anonymous_has_no_capability:
  assumes "Capability u = CapabilityAnonymous" and "b \<in> set capabilityBits"
  shows "\<not> HasCapability u b"
  using assms by (simp add: HasCapability_def CapabilityAnonymous_def)

theorem anonymous_has_no_capability_witness:
  "Capability (new_UserCookie\<lparr>Capability := CapabilityAnonymous\<rparr>) = CapabilityAnonymous
   \<and> CapabilityReauthenticate \<in> set capabilityBits
   \<and> \<not> HasCapability (new_UserCookie\<lparr>Capability := CapabilityAnonymous\<rparr>)
        CapabilityReauthenticate"
proof -
  have a: "Capability (new_UserCookie\<lparr>Capability := CapabilityAnonymous\<rparr>) = CapabilityAnonymous"
    by simp
  have b: "CapabilityReauthenticate \<in> set capabilityBits"
    by (simp add: capabilityBits_def)
  from anonymous_has_no_capability [OF a b] a b show ?thesis by simp
qed

text \<open>
  C5. \<^verbatim>\<open>CapabilityAdministrator\<close> is the union of view-users, invite-volunteer,
  invite-admin, edit-users and view-public-entry; a record carrying it has
  \<^verbatim>\<open>CapabilityViewUsers\<close> and does not have \<^verbatim>\<open>CapabilityEditResource\<close>.
\<close>

theorem administrator_capabilities:
  "CapabilityAdministrator =
     CapabilityViewUsers OR CapabilityInviteNewVolunteer OR CapabilityInviteNewAdmin
       OR CapabilityEditUsers OR CapabilityViewPublicResourceEntry
   \<and> HasCapability (u\<lparr>Capability := CapabilityAdministrator\<rparr>) CapabilityViewUsers
   \<and> \<not> HasCapability (u\<lparr>Capability := CapabilityAdministrator\<rparr>) CapabilityEditResource"
  by (simp add: HasCapability_def CapabilityAdministrator_def capability_defs)

text \<open>
  C6. \<^verbatim>\<open>CapabilityVolunteer\<close> is the union of view-public-entry, view-own-comment,
  view-other-comment, edit-own-comment, edit-resource and invite-volunteer; a record
  carrying it has \<^verbatim>\<open>CapabilityEditResource\<close> and does not have \<^verbatim>\<open>CapabilityEditUsers\<close>.
\<close>

theorem volunteer_capabilities:
  "CapabilityVolunteer =
     CapabilityViewPublicResourceEntry OR CapabilityViewOwnVolunteerComment
       OR CapabilityViewOtherVolunteerComment OR CapabilityEditOwnVolunteerComment
       OR CapabilityEditResource OR CapabilityInviteNewVolunteer
   \<and> HasCapability (u\<lparr>Capability := CapabilityVolunteer\<rparr>) CapabilityEditResource
   \<and> \<not> HasCapability (u\<lparr>Capability := CapabilityVolunteer\<rparr>) CapabilityEditUsers"
  by (simp add: HasCapability_def CapabilityVolunteer_def capability_defs)

section \<open>Properties of the cookie handler\<close>

lemmas ServeHTTP_defs =
  ServeHTTP_def delegate_ServeHTTP_def log_Println_def WithContext_def WithValue_def Let_def

lemma Cookie_of_absent:
  "SessionCookieName \<notin> Name ` set (cookies req) \<Longrightarrow> Cookie_of req SessionCookieName = Inl ErrNoCookie"
  by (force simp: Cookie_of_def find_None_iff split: option.splits)

lemma GetCookie_attach:
  "GetCookie (WithContext req (WithValue c UserCookieStateName (PtrUserCookie u))) = Inr u"
  by (simp add: GetCookie_def WithContext_def WithValue_def ctx_Value_def)

lemma attached_after_delegate:
  "attached (snd (delegate_ServeHTTP cf w
      (WithContext req (WithValue c UserCookieStateName (PtrUserCookie u))) s))
   = attached s @ [Inr u]"
  by (simp add: attached_def delegate_ServeHTTP_def GetCookie_attach)

lemma attached_log_Println: "attached (log_Println args s) = attached s"
  by (simp add: attached_def log_Println_def)

lemma attached_quiet_world: "attached quiet_world = []"
  by (simp add: attached_def quiet_world_def)

lemma example_Cookie_of:
  "Cookie_of (request_with [\<lparr>Name = ''session'', Value = v\<rparr>]) SessionCookieName
     = Inr \<lparr>Name = ''session'', Value = v\<rparr>"
  by (simp add: Cookie_of_def request_with_def SessionCookieName_def)

lemma example_Decode:
  "Decode (cookiecodec example_handler) SessionCookieName v dst =
     (if v = ''good'' then (None, alice)
      else if v = ''nocaps'' then (None, nocaps)
      else (Some ''securecookie: the value is not valid'', dst))"
  by (simp add: example_handler_def makeCookieHandler_def example_codec_def table_codec_def
      SessionCookieName_def)

lemma truncating_Decode:
  "Decode (cookiecodec truncating_handler) SessionCookieName v dst =
     (Some ''securecookie: error - caused by: unexpected EOF'',
      if v = ''cut-after-uuid'' then uuid_only
      else if v = ''cut-after-capability'' then half_admin
      else dst)"
  by (simp add: truncating_handler_def makeCookieHandler_def failing_codec_def
      SessionCookieName_def)

lemma new_UserCookie_anonymous:
  "Uuid new_UserCookie = [] \<and> Capability new_UserCookie = CapabilityAnonymous
   \<and> identity_invariant new_UserCookie \<and> \<not> IsAuthed new_UserCookie"
  by (simp add: new_UserCookie_def identity_invariant_def CapabilityAnonymous_def IsAuthed_def)

lemma attached_after_cookie:
  assumes "Cookie_of req SessionCookieName = Inr c"
    and "Decode (cookiecodec cf) SessionCookieName (Value c) new_UserCookie = (e, d)"
  shows "attached (snd (ServeHTTP cf w req s)) = attached s @ [Inr d]"
  using assms
  by (cases e) (simp_all add: ServeHTTP_def Let_def attached_after_delegate attached_log_Println)

text \<open>
  C2. A request without a session cookie: the handler logs "anonymous access", builds a
  record with empty id and capability \<^verbatim>\<open>CapabilityAnonymous\<close>, stores it in the request's
  context under \<^verbatim>\<open>UserCookieStateName\<close> and calls the delegate, once, with that request
  and the untouched response writer.
\<close>

theorem no_cookie_anonymous:
  assumes "SessionCookieName \<notin> Name ` set (cookies req)"
  shows "\<exists>req'. ServeHTTP cf w req s =
           (delegate cf w req',
            s\<lparr>logged := logged s @ [Sprintln [''anonymous access'']],
              served := served s @ [(w, req')]\<rparr>)
         \<and> req' = req\<lparr>ctx := (UserCookieStateName,
                 PtrUserCookie \<lparr>Uuid = [], Capability = CapabilityAnonymous,
                                Timestamp = Time 0 0, Displayname = []\<rparr>) # ctx req\<rparr>
         \<and> GetCookie req' = Inr \<lparr>Uuid = [], Capability = CapabilityAnonymous,
                                Timestamp = Time 0 0, Displayname = []\<rparr>"
  using Cookie_of_absent [OF assms]
  by (simp add: ServeHTTP_def delegate_ServeHTTP_def log_Println_def new_UserCookie_def
      WithContext_def WithValue_def GetCookie_def ctx_Value_def CapabilityAnonymous_def Let_def)

theorem no_cookie_anonymous_witness:
  "SessionCookieName \<notin> Name ` set (cookies (request_with [\<lparr>Name = ''theme'', Value = ''dark''\<rparr>]))
   \<and> attached (snd (ServeHTTP (makeCookieHandler (table_codec []) page_delegate) fresh_writer
        (request_with [\<lparr>Name = ''theme'', Value = ''dark''\<rparr>]) quiet_world))
      = [Inr \<lparr>Uuid = [], Capability = CapabilityAnonymous, Timestamp = Time 0 0, Displayname = []\<rparr>]"
proof -
  have h: "SessionCookieName \<notin> Name ` set (cookies (request_with [\<lparr>Name = ''theme'', Value = ''dark''\<rparr>]))"
    by (simp add: SessionCookieName_def request_with_def)
  from no_cookie_anonymous [OF h, of "makeCookieHandler (table_codec []) page_delegate" fresh_writer quiet_world]
  show ?thesis using h
    by (auto simp: attached_def quiet_world_def)
qed

text \<open>
  C8. On a request whose context has no value under \<^verbatim>\<open>UserCookieStateName\<close>, as before
  the middleware has run, \<^verbatim>\<open>GetCookie\<close> panics: it returns no record.
\<close>

theorem GetCookie_panics_before_middleware:
  assumes "ctx_Value (ctx req) UserCookieStateName = None"
  shows "GetCookie req = Inl InterfaceIsNil \<and> (\<forall>u. GetCookie req \<noteq> Inr u)"
  using assms by (simp add: GetCookie_def)

theorem GetCookie_panics_before_middleware_witness:
  "ctx_Value (ctx (request_with [\<lparr>Name = ''session'', Value = ''good''\<rparr>])) UserCookieStateName = None
   \<and> GetCookie (request_with [\<lparr>Name = ''session'', Value = ''good''\<rparr>]) = Inl InterfaceIsNil"
proof -
  have h: "ctx_Value (ctx (request_with [\<lparr>Name = ''session'', Value = ''good''\<rparr>])) UserCookieStateName = None"
    by (simp add: ctx_Value_def request_with_def)
  from GetCookie_panics_before_middleware [OF h] h show ?thesis by simp
qed

text \<open>
  C10, as stated, fails when the codec has written to the record before it reports the
  error: the handler attaches the record as \<^verbatim>\<open>Decode\<close> left it, not the zero record.  A
  decode that fails after the user id and an administrator mask were written reaches the
  delegate, after the error response, with \<^verbatim>\<open>IsAuthed\<close> true.
\<close>

theorem failed_decode_attaches_written_record:
  "Cookie_of (request_with [\<lparr>Name = ''session'', Value = ''cut-after-capability''\<rparr>])
       SessionCookieName
     = Inr \<lparr>Name = ''session'', Value = ''cut-after-capability''\<rparr>
   \<and> fst (Decode (cookiecodec truncating_handler) SessionCookieName
            ''cut-after-capability'' new_UserCookie)
     = Some ''securecookie: error - caused by: unexpected EOF''
   \<and> attached (snd (ServeHTTP truncating_handler fresh_writer
        (request_with [\<lparr>Name = ''session'', Value = ''cut-after-capability''\<rparr>]) quiet_world))
     = [Inr half_admin]
   \<and> half_admin \<noteq> new_UserCookie
   \<and> Capability half_admin = CapabilityAdministrator
   \<and> Capability half_admin \<noteq> CapabilityAnonymous
   \<and> IsAuthed half_admin"
proof -
  have "attached (snd (ServeHTTP truncating_handler fresh_writer
        (request_with [\<lparr>Name = ''session'', Value = ''cut-after-capability''\<rparr>]) quiet_world))
     = attached quiet_world @ [Inr half_admin]"
    by (rule attached_after_cookie [OF example_Cookie_of]) (simp add: truncating_Decode)
  then show ?thesis
    by (simp add: attached_quiet_world example_Cookie_of truncating_Decode half_admin_def
        new_UserCookie_def IsAuthed_def CapabilityAnonymous_def CapabilityAdministrator_value)
qed

text \<open>
  C10, amended.  For a request whose session cookie fails to decode, the handler logs,
  writes the error response and then still calls the delegate, once, with the error
  response already written and with the record as \<^verbatim>\<open>Decode\<close> left it in the context;
  \<^verbatim>\<open>IsAuthed\<close> of that record is true exactly when the capability mask left in it is not
  \<^verbatim>\<open>CapabilityAnonymous\<close>.  When \<^verbatim>\<open>Decode\<close> left the record as it was handed over, that is
  the zero-valued record (empty uuid, \<^verbatim>\<open>CapabilityAnonymous\<close>, zero timestamp, empty display
  name) and \<^verbatim>\<open>IsAuthed\<close> is false for it.
\<close>

theorem undecodable_cookie_still_delegated:
  assumes "Cookie_of req SessionCookieName = Inr c"
    and "Decode (cookiecodec cf) SessionCookieName (Value c) new_UserCookie = (Some err, d)"
  shows "\<exists>w1 req'. ServeHTTP cf w req s =
           (delegate cf w1 req',
            s\<lparr>logged := logged s @ [Sprintln [''request had a cookie but it was not decodeable:'', err]],
              served := served s @ [(w1, req')]\<rparr>)
         \<and> w1 = respondWithError w (Sprintln [''Malformed session cookie'', err])
         \<and> isErrorResponse w1
         \<and> req' = req\<lparr>ctx := (UserCookieStateName, PtrUserCookie d) # ctx req\<rparr>
         \<and> GetCookie req' = Inr d
         \<and> IsAuthed d = (Capability d \<noteq> CapabilityAnonymous)
         \<and> (d = new_UserCookie \<longrightarrow>
              GetCookie req' = Inr \<lparr>Uuid = [], Capability = CapabilityAnonymous,
                                     Timestamp = Time 0 0, Displayname = []\<rparr>
              \<and> \<not> IsAuthed d)"
  using assms
  by (simp add: ServeHTTP_defs GetCookie_def ctx_Value_def new_UserCookie_def
      CapabilityAnonymous_def IsAuthed_def isErrorResponse_def respondWithError_def)

theorem undecodable_cookie_still_delegated_witness:
  "Cookie_of (request_with [\<lparr>Name = ''session'', Value = ''garbage''\<rparr>]) SessionCookieName
     = Inr \<lparr>Name = ''session'', Value = ''garbage''\<rparr>
   \<and> Decode (cookiecodec example_handler) SessionCookieName
        (Value \<lparr>Name = ''session'', Value = ''garbage''\<rparr>) new_UserCookie
     = (Some ''securecookie: the value is not valid'', new_UserCookie)
   \<and> new_UserCookie = new_UserCookie
   \<and> attached (snd (ServeHTTP example_handler fresh_writer
        (request_with [\<lparr>Name = ''session'', Value = ''garbage''\<rparr>]) quiet_world))
     = [Inr \<lparr>Uuid = [], Capability = CapabilityAnonymous, Timestamp = Time 0 0,
             Displayname = []\<rparr>]
   \<and> \<not> IsAuthed new_UserCookie
   \<and> map (status \<circ> fst) (served (snd (ServeHTTP example_handler fresh_writer
        (request_with [\<lparr>Name = ''session'', Value = ''garbage''\<rparr>]) quiet_world)))
     = [Some 400]"
proof -
  have a: "Cookie_of (request_with [\<lparr>Name = ''session'', Value = ''garbage''\<rparr>]) SessionCookieName
     = Inr \<lparr>Name = ''session'', Value = ''garbage''\<rparr>"
    by (simp add: Cookie_of_def request_with_def SessionCookieName_def)
  have b: "Decode (cookiecodec example_handler) SessionCookieName
        (Value \<lparr>Name = ''session'', Value = ''garbage''\<rparr>) new_UserCookie
     = (Some ''securecookie: the value is not valid'', new_UserCookie)"
    by (simp add: example_handler_def makeCookieHandler_def example_codec_def table_codec_def
        SessionCookieName_def)
  from undecodable_cookie_still_delegated [OF a b, of fresh_writer quiet_world]
  show ?thesis using a b
    by (auto simp: attached_def quiet_world_def respondWithError_def)
qed

text \<open>
  C1. The claim that an undecodable session cookie stops the request at the middleware,
  evaluated on the request \<^verbatim>\<open>Cookie: session=garbage\<close>: the error response is written and
  the delegate is called all the same, and writes its page after the error text.
\<close>

theorem undecodable_cookie_reaches_delegate:
  "ServeHTTP example_handler fresh_writer
     (request_with [\<lparr>Name = ''session'', Value = ''garbage''\<rparr>]) quiet_world
   = (\<lparr>status = Some 400,
       body = ''Malformed session cookie securecookie: the value is not valid'' @ [CHR 0x0A] @ ''page''\<rparr>,
      \<lparr>logged = [''request had a cookie but it was not decodeable: securecookie: the value is not valid'' @ [CHR 0x0A]],
       served = [(\<lparr>status = Some 400,
                   body = ''Malformed session cookie securecookie: the value is not valid'' @ [CHR 0x0A]\<rparr>,
                  \<lparr>cookies = [\<lparr>Name = ''session'', Value = ''garbage''\<rparr>],
                   ctx = [(''usercookiestate'', PtrUserCookie new_UserCookie)]\<rparr>)]\<rparr>)
   \<and> length (served (snd (ServeHTTP example_handler fresh_writer
        (request_with [\<lparr>Name = ''session'', Value = ''garbage''\<rparr>]) quiet_world))) = 1
   \<and> isErrorResponse (fst (ServeHTTP example_handler fresh_writer
        (request_with [\<lparr>Name = ''session'', Value = ''garbage''\<rparr>]) quiet_world))"
  by (simp add: ServeHTTP_defs example_handler_def makeCookieHandler_def example_codec_def
      table_codec_def SessionCookieName_def UserCookieStateName_def Cookie_of_def request_with_def
      quiet_world_def fresh_writer_def respondWithError_def page_delegate_def
      isErrorResponse_def)

text \<open>
  C9, as stated, fails whenever the request carries a session cookie: the handler attaches
  the record as \<^verbatim>\<open>Decode\<close> left it, without looking at it.  A token that decodes to a
  record with a user id and no capability reaches the delegate with the invariant broken;
  so does a decode that fails after it has written the user id.
\<close>

theorem decoded_record_attached_unchecked:
  "attached (snd (ServeHTTP example_handler fresh_writer
      (request_with [\<lparr>Name = ''session'', Value = ''nocaps''\<rparr>]) quiet_world)) = [Inr nocaps]
   \<and> \<not> identity_invariant nocaps
   \<and> fst (Decode (cookiecodec truncating_handler) SessionCookieName
            ''cut-after-uuid'' new_UserCookie)
     = Some ''securecookie: error - caused by: unexpected EOF''
   \<and> attached (snd (ServeHTTP truncating_handler fresh_writer
        (request_with [\<lparr>Name = ''session'', Value = ''cut-after-uuid''\<rparr>]) quiet_world))
     = [Inr uuid_only]
   \<and> \<not> identity_invariant uuid_only"
proof -
  have "attached (snd (ServeHTTP example_handler fresh_writer
      (request_with [\<lparr>Name = ''session'', Value = ''nocaps''\<rparr>]) quiet_world))
     = attached quiet_world @ [Inr nocaps]"
    by (rule attached_after_cookie [OF example_Cookie_of]) (simp add: example_Decode)
  moreover have "attached (snd (ServeHTTP truncating_handler fresh_writer
        (request_with [\<lparr>Name = ''session'', Value = ''cut-after-uuid''\<rparr>]) quiet_world))
     = attached quiet_world @ [Inr uuid_only]"
    by (rule attached_after_cookie [OF example_Cookie_of]) (simp add: truncating_Decode)
  ultimately show ?thesis
    by (simp add: attached_quiet_world truncating_Decode identity_invariant_def nocaps_def
        uuid_only_def CapabilityAnonymous_def)
qed

text \<open>
  C9, amended.  Without a session cookie the attached record is the zero record: empty id
  and capability \<^verbatim>\<open>CapabilityAnonymous\<close>, so the invariant holds.  With a session cookie,
  whether it decodes or not, the attached record is the record as \<^verbatim>\<open>Decode\<close> left it,
  unchanged and unchecked, and the invariant holds for the attached record exactly when
  it holds for what \<^verbatim>\<open>Decode\<close> left.  In particular, when the decode fails and leaves the
  record as it was handed over, the attached record is the zero record and the invariant
  holds.
\<close>

theorem attached_identity_by_outcome:
  "(SessionCookieName \<notin> Name ` set (cookies req) \<longrightarrow>
      attached (snd (ServeHTTP cf w req s)) = attached s @ [Inr new_UserCookie]
      \<and> Uuid new_UserCookie = [] \<and> Capability new_UserCookie = CapabilityAnonymous
      \<and> identity_invariant new_UserCookie)
   \<and> (Cookie_of req SessionCookieName = Inr c
       \<and> Decode (cookiecodec cf) SessionCookieName (Value c) new_UserCookie = (e, d) \<longrightarrow>
      attached (snd (ServeHTTP cf w req s)) = attached s @ [Inr d]
      \<and> (\<exists>u. attached (snd (ServeHTTP cf w req s)) = attached s @ [Inr u]
              \<and> identity_invariant u) = identity_invariant d)
   \<and> (Cookie_of req SessionCookieName = Inr c
       \<and> Decode (cookiecodec cf) SessionCookieName (Value c) new_UserCookie
           = (Some err, new_UserCookie) \<longrightarrow>
      attached (snd (ServeHTTP cf w req s)) = attached s @ [Inr new_UserCookie]
      \<and> Uuid new_UserCookie = [] \<and> Capability new_UserCookie = CapabilityAnonymous
      \<and> identity_invariant new_UserCookie)"
proof -
  note z = new_UserCookie_anonymous
  have same: "new_UserCookie\<lparr>Capability := CapabilityAnonymous\<rparr> = new_UserCookie"
    by (simp add: new_UserCookie_def CapabilityAnonymous_def)
  have none: "attached (snd (ServeHTTP cf w req s)) = attached s @ [Inr new_UserCookie]"
    if "SessionCookieName \<notin> Name ` set (cookies req)"
    using Cookie_of_absent [OF that]
    by (simp add: ServeHTTP_def Let_def attached_after_delegate attached_log_Println same)
  have some: "attached (snd (ServeHTTP cf w req s)) = attached s @ [Inr d]
      \<and> (\<exists>u. attached (snd (ServeHTTP cf w req s)) = attached s @ [Inr u]
              \<and> identity_invariant u) = identity_invariant d"
    if "Cookie_of req SessionCookieName = Inr c"
      and "Decode (cookiecodec cf) SessionCookieName (Value c) new_UserCookie = (e, d)"
    using attached_after_cookie [OF that] by simp
  have bad: "attached (snd (ServeHTTP cf w req s)) = attached s @ [Inr new_UserCookie]"
    if "Cookie_of req SessionCookieName = Inr c"
      and "Decode (cookiecodec cf) SessionCookieName (Value c) new_UserCookie
           = (Some err, new_UserCookie)"
    using attached_after_cookie [OF that] .
  from z none some bad show ?thesis
    by blast
qed

theorem attached_identity_by_outcome_witness:
  "(SessionCookieName \<notin> Name ` set (cookies (request_with []))
    \<and> attached (snd (ServeHTTP example_handler fresh_writer (request_with []) quiet_world))
        = [Inr new_UserCookie])
   \<and> (Cookie_of (request_with [\<lparr>Name = ''session'', Value = ''good''\<rparr>]) SessionCookieName
         = Inr \<lparr>Name = ''session'', Value = ''good''\<rparr>
       \<and> Decode (cookiecodec example_handler) SessionCookieName
            (Value \<lparr>Name = ''session'', Value = ''good''\<rparr>) new_UserCookie
         = (None, alice)
       \<and> attached (snd (ServeHTTP example_handler fresh_writer
            (request_with [\<lparr>Name = ''session'', Value = ''good''\<rparr>]) quiet_world))
         = [Inr alice]
       \<and> identity_invariant alice)
   \<and> (Cookie_of (request_with [\<lparr>Name = ''session'', Value = ''cut-after-uuid''\<rparr>])
            SessionCookieName
         = Inr \<lparr>Name = ''session'', Value = ''cut-after-uuid''\<rparr>
       \<and> Decode (cookiecodec truncating_handler) SessionCookieName
            (Value \<lparr>Name = ''session'', Value = ''cut-after-uuid''\<rparr>) new_UserCookie
         = (Some ''securecookie: error - caused by: unexpected EOF'', uuid_only)
       \<and> attached (snd (ServeHTTP truncating_handler fresh_writer
            (request_with [\<lparr>Name = ''session'', Value = ''cut-after-uuid''\<rparr>]) quiet_world))
         = [Inr uuid_only]
       \<and> \<not> identity_invariant uuid_only)
   \<and> (Cookie_of (request_with [\<lparr>Name = ''session'', Value = ''garbage''\<rparr>]) SessionCookieName
         = Inr \<lparr>Name = ''session'', Value = ''garbage''\<rparr>
       \<and> Decode (cookiecodec example_handler) SessionCookieName
            (Value \<lparr>Name = ''session'', Value = ''garbage''\<rparr>) new_UserCookie
         = (Some ''securecookie: the value is not valid'', new_UserCookie)
       \<and> attached (snd (ServeHTTP example_handler fresh_writer
            (request_with [\<lparr>Name = ''session'', Value = ''garbage''\<rparr>]) quiet_world))
         = [Inr new_UserCookie])"
proof -
  have a: "SessionCookieName \<notin> Name ` set (cookies (request_with []))"
    by (simp add: request_with_def)
  have b: "Decode (cookiecodec example_handler) SessionCookieName
            (Value \<lparr>Name = ''session'', Value = ''garbage''\<rparr>) new_UserCookie
         = (Some ''securecookie: the value is not valid'', new_UserCookie)"
    by (simp add: example_Decode)
  have c: "Decode (cookiecodec example_handler) SessionCookieName
            (Value \<lparr>Name = ''session'', Value = ''good''\<rparr>) new_UserCookie
         = (None, alice)"
    by (simp add: example_Decode)
  have t: "Decode (cookiecodec truncating_handler) SessionCookieName
            (Value \<lparr>Name = ''session'', Value = ''cut-after-uuid''\<rparr>) new_UserCookie
         = (Some ''securecookie: error - caused by: unexpected EOF'', uuid_only)"
    by (simp add: truncating_Decode)
  have i: "identity_invariant alice"
    by (simp add: identity_invariant_def alice_def CapabilityAnonymous_def
        CapabilityVolunteer_value)
  have j: "\<not> identity_invariant uuid_only"
    by (simp add: identity_invariant_def uuid_only_def CapabilityAnonymous_def)
  show ?thesis
    using attached_identity_by_outcome
        [where req = "request_with []" and cf = example_handler and w = fresh_writer
           and s = quiet_world]
      attached_identity_by_outcome
        [where req = "request_with [\<lparr>Name = ''session'', Value = ''good''\<rparr>]"
           and c = "\<lparr>Name = ''session'', Value = ''good''\<rparr>" and cf = example_handler
           and w = fresh_writer and s = quiet_world and e = None and d = alice]
      attached_identity_by_outcome
        [where req = "request_with [\<lparr>Name = ''session'', Value = ''cut-after-uuid''\<rparr>]"
           and c = "\<lparr>Name = ''session'', Value = ''cut-after-uuid''\<rparr>"
           and cf = truncating_handler and w = fresh_writer and s = quiet_world
           and e = "Some ''securecookie: error - caused by: unexpected EOF''"
           and d = uuid_only]
      attached_identity_by_outcome
        [where req = "request_with [\<lparr>Name = ''session'', Value = ''garbage''\<rparr>]"
           and c = "\<lparr>Name = ''session'', Value = ''garbage''\<rparr>" and cf = example_handler
           and err = "''securecookie: the value is not valid''" and w = fresh_writer
           and s = quiet_world]
      a b c t i j example_Cookie_of attached_quiet_world
    by simp
qed

section \<open>Properties of key provisioning\<close>

lemma fmt_d_32: "fmt_d 32 = ''32''"
  by code_simp

lemma makeCookieTooling_hashkey_error:
  "makeCookieCryptoKey env statepath ''hashkey.dat'' w = (Inl err, w') \<Longrightarrow>
   makeCookieTooling env statepath w = (Inl err, w')"
  by (simp add: makeCookieTooling_def)

text \<open>
  C7, as stated, fails in its second half: \<^verbatim>\<open>makeCookieCryptoKey\<close> does not look at why
  the read failed.  On a disk where the key file exists but every read of it fails with an
  I/O error, the function generates a new key, truncates the file, writes the new key and
  returns it without an error.
\<close>

theorem unreadable_key_replaced:
  "map_of (files damaged_disk) (filepath_Join disk_env ''state'' ''hashkey.dat'') = Some old_key
   \<and> ioutil_ReadFile disk_env (filepath_Join disk_env ''state'' ''hashkey.dat'') damaged_disk
       = Inl ''read state/hashkey.dat: input/output error''
   \<and> fst (makeCookieCryptoKey disk_env ''state'' ''hashkey.dat'' damaged_disk)
       = Inr (replicate 32 42)
   \<and> map_of (files (snd (makeCookieCryptoKey disk_env ''state'' ''hashkey.dat'' damaged_disk)))
        ''state/hashkey.dat'' = Some (replicate 32 42)"
  by (simp add: makeCookieCryptoKey_def disk_env_def damaged_disk_def Let_def)

text \<open>
  C7, amended.  A key file that can be read is returned as it is and nothing is written.
  When the read fails, for whatever reason, a 32-byte key is requested from the random
  source, the file is created and the key written to it; if all three succeed the new key
  is returned.  An error is returned when, after the failed read, key generation fails,
  the file cannot be created, or the write fails or is short; and never unless the read
  failed.
\<close>

theorem makeCookieCryptoKey_outcomes:
  "(ioutil_ReadFile env (filepath_Join env statepath cookiename) w = Inr key \<longrightarrow>
      makeCookieCryptoKey env statepath cookiename w = (Inr key, w))
   \<and> (ioutil_ReadFile env (filepath_Join env statepath cookiename) w = Inl e
       \<and> GenerateRandomKey env 32 w = (Some key, wg)
       \<and> os_Create env (filepath_Join env statepath cookiename) wg = (Inr f, wc)
       \<and> File_Write env f key wc = ((length key, None), ww) \<longrightarrow>
      makeCookieCryptoKey env statepath cookiename w = (Inr key, ww))
   \<and> (ioutil_ReadFile env (filepath_Join env statepath cookiename) w = Inl e
       \<and> (GenerateRandomKey env 32 w = (None, wg)
          \<or> GenerateRandomKey env 32 w = (Some key, wg)
            \<and> (os_Create env (filepath_Join env statepath cookiename) wg = (Inl e', wc)
               \<or> os_Create env (filepath_Join env statepath cookiename) wg = (Inr f, wc)
                 \<and> File_Write env f key wc = ((n, err), ww)
                 \<and> (err \<noteq> None \<or> n \<noteq> length key))) \<longrightarrow>
      isl (fst (makeCookieCryptoKey env statepath cookiename w)))
   \<and> (isl (fst (makeCookieCryptoKey env statepath cookiename w)) \<longrightarrow>
      isl (ioutil_ReadFile env (filepath_Join env statepath cookiename) w))"
  by (auto simp: makeCookieCryptoKey_def Let_def split: sum.splits prod.splits option.splits)

theorem makeCookieCryptoKey_outcomes_witness:
  "(ioutil_ReadFile disk_env (filepath_Join disk_env ''state'' ''hashkey.dat'') healthy_disk
      = Inr old_key
    \<and> makeCookieCryptoKey disk_env ''state'' ''hashkey.dat'' healthy_disk
      = (Inr old_key, healthy_disk))
   \<and> (ioutil_ReadFile disk_env (filepath_Join disk_env ''state'' ''hashkey.dat'') empty_disk
        = Inl ''open state/hashkey.dat: no such file or directory''
       \<and> GenerateRandomKey disk_env 32 empty_disk = (Some (replicate 32 42), empty_disk)
       \<and> os_Create disk_env (filepath_Join disk_env ''state'' ''hashkey.dat'') empty_disk
          = (Inr ''state/hashkey.dat'', empty_disk\<lparr>files := [(''state/hashkey.dat'', [])]\<rparr>)
       \<and> File_Write disk_env ''state/hashkey.dat'' (replicate 32 42)
            (empty_disk\<lparr>files := [(''state/hashkey.dat'', [])]\<rparr>)
          = ((length (replicate 32 (42::8 word)), None),
             empty_disk\<lparr>files := [(''state/hashkey.dat'', replicate 32 42),
                                  (''state/hashkey.dat'', [])]\<rparr>)
       \<and> makeCookieCryptoKey disk_env ''state'' ''hashkey.dat'' empty_disk
          = (Inr (replicate 32 42),
             empty_disk\<lparr>files := [(''state/hashkey.dat'', replicate 32 42),
                                  (''state/hashkey.dat'', [])]\<rparr>))
   \<and> (ioutil_ReadFile disk_env (filepath_Join disk_env ''state'' ''hashkey.dat'') readonly_disk
        = Inl ''open state/hashkey.dat: no such file or directory''
       \<and> GenerateRandomKey disk_env 32 readonly_disk = (Some (replicate 32 42), readonly_disk)
       \<and> os_Create disk_env (filepath_Join disk_env ''state'' ''hashkey.dat'') readonly_disk
          = (Inl ''open state/hashkey.dat: read-only file system'', readonly_disk)
       \<and> isl (fst (makeCookieCryptoKey disk_env ''state'' ''hashkey.dat'' readonly_disk))
       \<and> isl (ioutil_ReadFile disk_env (filepath_Join disk_env ''state'' ''hashkey.dat'')
                readonly_disk))"
proof -
  have a: "ioutil_ReadFile disk_env (filepath_Join disk_env ''state'' ''hashkey.dat'') healthy_disk
      = Inr old_key"
    by (simp add: disk_env_def healthy_disk_def)
  have b: "ioutil_ReadFile disk_env (filepath_Join disk_env ''state'' ''hashkey.dat'') empty_disk
        = Inl ''open state/hashkey.dat: no such file or directory''
       \<and> GenerateRandomKey disk_env 32 empty_disk = (Some (replicate 32 42), empty_disk)
       \<and> os_Create disk_env (filepath_Join disk_env ''state'' ''hashkey.dat'') empty_disk
          = (Inr ''state/hashkey.dat'', empty_disk\<lparr>files := [(''state/hashkey.dat'', [])]\<rparr>)
       \<and> File_Write disk_env ''state/hashkey.dat'' (replicate 32 42)
            (empty_disk\<lparr>files := [(''state/hashkey.dat'', [])]\<rparr>)
          = ((length (replicate 32 (42::8 word)), None),
             empty_disk\<lparr>files := [(''state/hashkey.dat'', replicate 32 42),
                                  (''state/hashkey.dat'', [])]\<rparr>)"
    by (simp add: disk_env_def empty_disk_def)
  have c: "ioutil_ReadFile disk_env (filepath_Join disk_env ''state'' ''hashkey.dat'') readonly_disk
        = Inl ''open state/hashkey.dat: no such file or directory''
       \<and> GenerateRandomKey disk_env 32 readonly_disk = (Some (replicate 32 42), readonly_disk)
       \<and> os_Create disk_env (filepath_Join disk_env ''state'' ''hashkey.dat'') readonly_disk
          = (Inl ''open state/hashkey.dat: read-only file system'', readonly_disk)"
    by (simp add: disk_env_def readonly_disk_def)
  from a have 1: "makeCookieCryptoKey disk_env ''state'' ''hashkey.dat'' healthy_disk
      = (Inr old_key, healthy_disk)"
    using makeCookieCryptoKey_outcomes
      [where env = disk_env and statepath = "''state''" and cookiename = "''hashkey.dat''"
         and w = healthy_disk and key = old_key]
    by blast
  from b have 2: "makeCookieCryptoKey disk_env ''state'' ''hashkey.dat'' empty_disk
          = (Inr (replicate 32 42),
             empty_disk\<lparr>files := [(''state/hashkey.dat'', replicate 32 42),
                                  (''state/hashkey.dat'', [])]\<rparr>)"
    using makeCookieCryptoKey_outcomes
      [where env = disk_env and statepath = "''state''" and cookiename = "''hashkey.dat''"
         and w = empty_disk and key = "replicate 32 42" and wg = empty_disk
         and e = "''open state/hashkey.dat: no such file or directory''"
         and f = "''state/hashkey.dat''"
         and wc = "empty_disk\<lparr>files := [(''state/hashkey.dat'', [])]\<rparr>"
         and ww = "empty_disk\<lparr>files := [(''state/hashkey.dat'', replicate 32 42),
                                  (''state/hashkey.dat'', [])]\<rparr>"]
    by blast
  from c have 3: "isl (fst (makeCookieCryptoKey disk_env ''state'' ''hashkey.dat'' readonly_disk))"
    using makeCookieCryptoKey_outcomes
      [where env = disk_env and statepath = "''state''" and cookiename = "''hashkey.dat''"
         and w = readonly_disk and key = "replicate 32 42" and wg = readonly_disk
         and e = "''open state/hashkey.dat: no such file or directory''"
         and e' = "''open state/hashkey.dat: read-only file system''"
         and wc = readonly_disk]
    by blast
  from 3 have 4: "isl (ioutil_ReadFile disk_env (filepath_Join disk_env ''state'' ''hashkey.dat'')
                readonly_disk)"
    using makeCookieCryptoKey_outcomes
      [where env = disk_env and statepath = "''state''" and cookiename = "''hashkey.dat''"
         and w = readonly_disk]
    by blast
  from a b c 1 2 3 4 show ?thesis
    by blast
qed

end
